theory Spec2Isabelle
  imports Main "HOL-Library.Char_ord" "HOL-Library.List_Lexorder"
begin

section \<open>Data model\<close>

text \<open>
  The desired items of the project specification: \<^verbatim>\<open>mdbv1.CloudProviderIntegration\<close>, and the
  deprecated \<^verbatim>\<open>mdbv1.CloudProviderAccessRole\<close>, which the source converts to it field by field.
  The type declarations are not among the sources; the fields are the ones the code reads.
\<close>

record CloudProviderIntegration =
  ProviderName :: string
  IamAssumedRoleArn :: string

record AtlasProjectSpec =
  CloudProviderAccessRoles :: "CloudProviderIntegration list"
  CloudProviderIntegrations :: "CloudProviderIntegration list"

text \<open>
  The remote items: \<^verbatim>\<open>mongodbatlas.CloudProviderAccessRole\<close> of the client library. A feature
  usage carries its identifier as a dynamically typed value (\<^verbatim>\<open>interface{}\<close>): nil, a string, or
  anything else; the list holds pointers, so an entry may be nil (\<open>None\<close>).
\<close>

datatype FeatureIDValue = FeatureIDNil | FeatureIDString string | FeatureIDOther

record AtlasFeatureUsage =
  cpa_FeatureType :: string
  cpa_FeatureID :: FeatureIDValue

record CloudProviderAccessRole =
  cpa_AtlasAWSAccountARN :: string
  cpa_AtlasAssumedRoleExternalID :: string
  cpa_AuthorizedDate :: string
  cpa_CreatedDate :: string
  cpa_FeatureUsages :: "AtlasFeatureUsage option list"
  cpa_IAMAssumedRoleARN :: string
  cpa_ProviderName :: string
  cpa_RoleID :: string

text \<open>
  The per-item status \<^verbatim>\<open>status.CloudProviderIntegration\<close> with its lifecycle phase. The phase is
  a string constant in the source; the seven constants are the only values the code assigns.
\<close>

datatype Phase =
    CloudProviderIntegrationStatusNew
  | CloudProviderIntegrationStatusCreated
  | CloudProviderIntegrationStatusAuthorized
  | CloudProviderIntegrationStatusFailedToCreate
  | CloudProviderIntegrationStatusFailedToAuthorize
  | CloudProviderIntegrationStatusDeAuthorize
  | CloudProviderIntegrationStatusFailedToDeAuthorize

record FeatureUsage =
  FeatureID :: string
  FeatureType :: string

record StatusCloudProviderIntegration =
  st_AtlasAWSAccountArn :: string
  st_AtlasAssumedRoleExternalID :: string
  st_AuthorizedDate :: string
  st_CreatedDate :: string
  st_FeatureUsages :: "FeatureUsage list"
  st_IamAssumedRoleArn :: string
  st_ProviderName :: string
  st_RoleID :: string
  st_Status :: Phase
  st_ErrorMessage :: string

record AtlasProject =
  Annotations :: "string \<Rightarrow> string option"
  Spec :: AtlasProjectSpec
  Status_CloudProviderIntegrations :: "StatusCloudProviderIntegration list"
  ID :: string

text \<open>
  Modelled from the spec: the declaration of \<^verbatim>\<open>mdbv1.DataFederationPE\<close> is not among the sources.
  The code reads its \<^verbatim>\<open>EndpointID\<close>; the spec names the endpoint identifier as the natural key of
  a private-network-endpoint request.
\<close>

record DataFederationPE =
  EndpointID :: string
  Provider :: string
  PEType :: string

text \<open>
  Modelled from the spec: package \<^verbatim>\<open>workflow\<close> is not among the sources. A result is one of
  Ok, InProgress (reason, message) and Terminate (reason, message); the reasons are the three
  constants the code passes. The retry and warning flags of a result are left out: no function
  here reads them. \<open>IsOk\<close> is applied to the results of \<open>syncPrivateEndpointsWithAtlas\<close> only,
  which are Ok or Terminate.
\<close>

datatype ConditionReason =
  Internal | AtlasDeletionProtection | ProjectCloudIntegrationsIsNotReadyInAtlas

datatype Result = OK | InProgress ConditionReason string | Terminate ConditionReason string


datatype ConditionType = CloudProviderIntegrationReadyType | DataFederationPEReadyType

datatype ConditionUpdate =
  SetConditionFromResult Result | UnsetCondition | SetConditionFalse | SetConditionTrueMsg string

section \<open>The remote API and the workflow context\<close>

text \<open>
  Every call the code issues through its clients, with the arguments it passes. A Go
  \<^verbatim>\<open>error\<close> is represented by its message (the only thing the code reads of it).
\<close>

datatype Call =
    ListRolesCall string
  | CreateRoleCall string string
  | AuthorizeRoleCall string string string string
  | DeauthorizeRoleCall string string string
  | GetAllPrivateEndpointsCall string
  | CreateOnePrivateEndpointCall string DataFederationPE
  | DeleteOnePrivateEndpointCall string string

fun isMutation :: "Call \<Rightarrow> bool" where
  "isMutation (ListRolesCall _) = False"
| "isMutation (GetAllPrivateEndpointsCall _) = False"
| "isMutation _ = True"

text \<open>
  The remote service is a parameter: any state type \<open>'r\<close> with one operation per remote call,
  each returning its answer and the next state of the service.
  \<^item> \<open>ListRoles r projectID\<close>: an error or the AWS IAM roles of the project;
  \<^item> \<open>CreateRole r projectID providerName\<close>: an error or the role created;
  \<^item> \<open>AuthorizeRole r projectID roleID providerName arn\<close>: an error or the role as updated;
  \<^item> \<open>DeauthorizeRole r providerName groupID roleID\<close>: an error or nothing.
\<close>

record 'r CloudProviderAccessService =
  ListRoles :: "'r \<Rightarrow> string \<Rightarrow> (string + CloudProviderAccessRole list) \<times> 'r"
  CreateRole :: "'r \<Rightarrow> string \<Rightarrow> string \<Rightarrow> (string + CloudProviderAccessRole) \<times> 'r"
  AuthorizeRole ::
    "'r \<Rightarrow> string \<Rightarrow> string \<Rightarrow> string \<Rightarrow> string \<Rightarrow> (string + CloudProviderAccessRole) \<times> 'r"
  DeauthorizeRole :: "'r \<Rightarrow> string \<Rightarrow> string \<Rightarrow> string \<Rightarrow> string option \<times> 'r"

text \<open>
  The data federation client. \<open>GetAllPrivateEndpoints\<close> returns, as in Go, a slice that may be
  nil together with an error that may be nil.
\<close>

record 'r DataFederationServiceOp =
  GetAllPrivateEndpoints ::
    "'r \<Rightarrow> string \<Rightarrow> (DataFederationPE list option \<times> string option) \<times> 'r"
  CreateOnePrivateEndpoint :: "'r \<Rightarrow> string \<Rightarrow> DataFederationPE \<Rightarrow> string option \<times> 'r"
  DeleteOnePrivateEndpoint :: "'r \<Rightarrow> string \<Rightarrow> string \<Rightarrow> string option \<times> 'r"

text \<open>
  What a reconciliation pass changes through \<^verbatim>\<open>workflow.Context\<close>: the remote service behind the
  client, the calls issued so far (oldest first), the condition updates, and the status list
  handed to \<^verbatim>\<open>EnsureStatusOption\<close> for persisting. Logging is left out.
\<close>

record 'r Context =
  ctx_remote :: 'r
  ctx_calls :: "Call list"
  ctx_conditions :: "(ConditionType \<times> ConditionUpdate) list"
  ctx_statusOption :: "StatusCloudProviderIntegration list option"

definition issue :: "'r Context \<Rightarrow> Call \<Rightarrow> 'a \<times> 'r \<Rightarrow> 'a \<times> 'r Context" where
  "issue ctx call answer =
     (fst answer, ctx\<lparr>ctx_remote := snd answer, ctx_calls := ctx_calls ctx @ [call]\<rparr>)"

definition setCondition :: "'r Context \<Rightarrow> ConditionType \<Rightarrow> ConditionUpdate \<Rightarrow> 'r Context" where
  "setCondition ctx t u = ctx\<lparr>ctx_conditions := ctx_conditions ctx @ [(t, u)]\<rparr>"

section \<open>Identity and diff engine\<close>

definition Identifier :: "CloudProviderIntegration \<Rightarrow> string" where
  "Identifier cpa = ProviderName cpa @ ''.'' @ IamAssumedRoleArn cpa"

text \<open>
  Modelled from the spec: the \<^verbatim>\<open>Identifier\<close> method of \<^verbatim>\<open>mdbv1.DataFederationPE\<close> is not among the
  sources; the spec keys an endpoint by its endpoint identifier.
\<close>

definition DataFederationPE_Identifier :: "DataFederationPE \<Rightarrow> string" where
  "DataFederationPE_Identifier pe = EndpointID pe"

text \<open>
  Modelled from the spec: \<^verbatim>\<open>set.Difference\<close> of package \<^verbatim>\<open>internal/set\<close> is not among the sources.
  Following the spec, \<open>Difference left right\<close> holds the items of \<open>left\<close> whose identifier is the
  identifier of no item of \<open>right\<close>; equality is identifier string equality only. The spec
  leaves the order of the result open; here it is the order of \<open>left\<close>.
\<close>

definition Difference :: "('a \<Rightarrow> string) \<Rightarrow> 'a list \<Rightarrow> 'a list \<Rightarrow> 'a list" where
  "Difference ident left right = filter (\<lambda>l. ident l \<notin> set (map ident right)) left"

section \<open>Ownership resolver\<close>

definition getCloudProviderIntegrations :: "AtlasProjectSpec \<Rightarrow> CloudProviderIntegration list" where
  "getCloudProviderIntegrations projectSpec =
     (if length (CloudProviderAccessRoles projectSpec) > 0
      then CloudProviderAccessRoles projectSpec
      else CloudProviderIntegrations projectSpec)"

definition emptyAtlasProjectSpec :: AtlasProjectSpec where
  "emptyAtlasProjectSpec = \<lparr>CloudProviderAccessRoles = [], CloudProviderIntegrations = []\<rparr>"

definition roleIdentity :: "CloudProviderAccessRole \<Rightarrow> CloudProviderIntegration" where
  "roleIdentity r =
     \<lparr>ProviderName = cpa_ProviderName r, IamAssumedRoleArn = cpa_IAMAssumedRoleARN r\<rparr>"

text \<open>
  \<open>canCloudProviderIntegrationReconcile\<close>. The JSON decoder of the standard library and the
  annotation key (a constant of package \<^verbatim>\<open>customresource\<close>) are parameters: \<open>unmarshal s\<close> is
  the decoding error or the project specification decoded from \<open>s\<close> into an empty one. The
  result is the error (\<open>Inl\<close>) or the answer, with the context after the calls made.
\<close>

definition lastAppliedConfiguration ::
  "(string \<Rightarrow> string + AtlasProjectSpec) \<Rightarrow> string \<Rightarrow> AtlasProject \<Rightarrow>
   string + AtlasProjectSpec" where
  "lastAppliedConfiguration unmarshal annotationKey akoProject =
     (case Annotations akoProject annotationKey of
        None \<Rightarrow> Inr emptyAtlasProjectSpec
      | Some latestConfigString \<Rightarrow> unmarshal latestConfigString)"

definition canCloudProviderIntegrationReconcile ::
  "'r CloudProviderAccessService \<Rightarrow> (string \<Rightarrow> string + AtlasProjectSpec) \<Rightarrow> string \<Rightarrow>
   'r Context \<Rightarrow> bool \<Rightarrow> AtlasProject \<Rightarrow> (string + bool) \<times> 'r Context" where
  "canCloudProviderIntegrationReconcile client unmarshal annotationKey workflowCtx protected akoProject =
     (if \<not> protected then (Inr True, workflowCtx)
      else
        case lastAppliedConfiguration unmarshal annotationKey akoProject of
          Inl err \<Rightarrow> (Inl err, workflowCtx)
        | Inr latestConfig \<Rightarrow>
            (case issue workflowCtx (ListRolesCall (ID akoProject))
                    (ListRoles client (ctx_remote workflowCtx) (ID akoProject)) of
               (Inl err, ctx1) \<Rightarrow> (Inl err, ctx1)
             | (Inr list, ctx1) \<Rightarrow>
                 (let atlasList =
                        map roleIdentity
                          (filter (\<lambda>r. cpa_IAMAssumedRoleARN r \<noteq> '''') list)
                  in if length atlasList = 0 then (Inr True, ctx1)
                     else if length (Difference Identifier atlasList
                                       (getCloudProviderIntegrations latestConfig)) = 0
                     then (Inr True, ctx1)
                     else (Inr (length (Difference Identifier
                                          (getCloudProviderIntegrations (Spec akoProject))
                                          atlasList) = 0), ctx1))))"

text \<open>
  The four steps of the resolver as the specification words them, over the remote item list it
  is given: permitted when protection is off, when the remote list is empty, when the set of
  identifiers \<open>remote \ lastAppliedDesired\<close> is empty, and otherwise exactly when the set of
  identifiers \<open>currentDesired \ remote\<close> is empty.
\<close>

definition spec_OwnershipResolver ::
  "bool \<Rightarrow> CloudProviderIntegration list \<Rightarrow> CloudProviderIntegration list \<Rightarrow>
   CloudProviderIntegration list \<Rightarrow> bool" where
  "spec_OwnershipResolver protected remote lastAppliedDesired currentDesired =
     (if \<not> protected then True
      else if remote = [] then True
      else if Identifier ` set remote - Identifier ` set lastAppliedDesired = {} then True
      else Identifier ` set currentDesired - Identifier ` set remote = {})"

section \<open>Per-item convergence\<close>

text \<open>
  Modelled from the spec: \<^verbatim>\<open>status.NewCloudProviderIntegration\<close> is not among the sources. A
  status entry created for an item carries the item's identity fields and the phase New;
  every other field is empty.
\<close>

definition NewCloudProviderIntegration :: "string \<Rightarrow> string \<Rightarrow> StatusCloudProviderIntegration" where
  "NewCloudProviderIntegration providerName assumedRoleArn =
     \<lparr>st_AtlasAWSAccountArn = '''', st_AtlasAssumedRoleExternalID = '''', st_AuthorizedDate = '''',
      st_CreatedDate = '''', st_FeatureUsages = [], st_IamAssumedRoleArn = assumedRoleArn,
      st_ProviderName = providerName, st_RoleID = '''',
      st_Status = CloudProviderIntegrationStatusNew, st_ErrorMessage = ''''\<rparr>"

definition initiateStatuses :: "CloudProviderIntegration list \<Rightarrow> StatusCloudProviderIntegration list" where
  "initiateStatuses cpiSpecs =
     map (\<lambda>cpiSpec. NewCloudProviderIntegration (ProviderName cpiSpec) (IamAssumedRoleArn cpiSpec))
       cpiSpecs"

text \<open>
  The feature usages of a remote role, converted for the status. A nil entry is skipped, a nil
  identifier becomes the empty string, and the type assertion \<^verbatim>\<open>feature.FeatureID.(string)\<close>
  panics on an identifier that is not a string: the result is then \<open>None\<close>, here and in
  every function that copies remote data.
\<close>

fun convertFeatureUsages :: "AtlasFeatureUsage option list \<Rightarrow> FeatureUsage list option" where
  "convertFeatureUsages [] = Some []"
| "convertFeatureUsages (None # features) = convertFeatureUsages features"
| "convertFeatureUsages (Some feature # features) =
     (case cpa_FeatureID feature of
        FeatureIDOther \<Rightarrow> None
      | FeatureIDNil \<Rightarrow>
          map_option ((#) \<lparr>FeatureID = '''', FeatureType = cpa_FeatureType feature\<rparr>)
            (convertFeatureUsages features)
      | FeatureIDString fid \<Rightarrow>
          map_option ((#) \<lparr>FeatureID = fid, FeatureType = cpa_FeatureType feature\<rparr>)
            (convertFeatureUsages features))"

definition copyCloudProviderAccessData ::
  "StatusCloudProviderIntegration \<Rightarrow> CloudProviderAccessRole \<Rightarrow> StatusCloudProviderIntegration option" where
  "copyCloudProviderAccessData cpiStatus atlasCPA =
     (let copied = cpiStatus
            \<lparr>st_AtlasAWSAccountArn := cpa_AtlasAWSAccountARN atlasCPA,
             st_AtlasAssumedRoleExternalID := cpa_AtlasAssumedRoleExternalID atlasCPA,
             st_RoleID := cpa_RoleID atlasCPA,
             st_CreatedDate := cpa_CreatedDate atlasCPA,
             st_AuthorizedDate := cpa_AuthorizedDate atlasCPA,
             st_Status := (if cpa_AuthorizedDate atlasCPA \<noteq> ''''
                           then CloudProviderIntegrationStatusAuthorized
                           else CloudProviderIntegrationStatusCreated)\<rparr>
      in if length (cpa_FeatureUsages atlasCPA) > 0
         then map_option (\<lambda>usages. copied\<lparr>st_FeatureUsages := usages\<rparr>)
                (convertFeatureUsages (cpa_FeatureUsages atlasCPA))
         else Some copied)"

definition isMatch :: "StatusCloudProviderIntegration \<Rightarrow> CloudProviderAccessRole \<Rightarrow> bool" where
  "isMatch cpaSpec atlasCPA \<longleftrightarrow>
     cpa_IAMAssumedRoleARN atlasCPA \<noteq> '''' \<and> st_IamAssumedRoleArn cpaSpec \<noteq> '''' \<and>
     cpa_ProviderName atlasCPA = st_ProviderName cpaSpec \<and>
     cpa_IAMAssumedRoleARN atlasCPA = st_IamAssumedRoleArn cpaSpec"

text \<open>
  \<open>sortAtlasCPAsByRoleID\<close>: ascending by role identifier, strings compared bytewise as Go
  does. The sort of the source is not stable; this one (insertion sort) is, so the two may
  order roles that share a role identifier differently.
\<close>

definition sortAtlasCPAsByRoleID :: "CloudProviderAccessRole list \<Rightarrow> CloudProviderAccessRole list" where
  "sortAtlasCPAsByRoleID atlasCPAs = sort_key cpa_RoleID atlasCPAs"

text \<open>
  The loops of \<open>enrichStatuses\<close>, in the order of the source. First the configured matches: a
  status takes the data of every role that matches it, one after the other (the
  \<^verbatim>\<open>continue\<close> of the source does not leave the inner loop), so the last match stays.
\<close>

fun enrichStatuses_matchRoles ::
  "StatusCloudProviderIntegration \<Rightarrow> CloudProviderAccessRole list \<Rightarrow> StatusCloudProviderIntegration option" where
  "enrichStatuses_matchRoles cpiStatus [] = Some cpiStatus"
| "enrichStatuses_matchRoles cpiStatus (atlasCPA # atlasCPAs) =
     (if isMatch cpiStatus atlasCPA
      then (case copyCloudProviderAccessData cpiStatus atlasCPA of
              None \<Rightarrow> None
            | Some cpiStatus' \<Rightarrow> enrichStatuses_matchRoles cpiStatus' atlasCPAs)
      else enrichStatuses_matchRoles cpiStatus atlasCPAs)"

fun enrichStatuses_match ::
  "StatusCloudProviderIntegration list \<Rightarrow> CloudProviderAccessRole list \<Rightarrow>
   StatusCloudProviderIntegration list option" where
  "enrichStatuses_match [] atlasCPAs = Some []"
| "enrichStatuses_match (cpiStatus # cpiStatuses) atlasCPAs =
     (case enrichStatuses_matchRoles cpiStatus atlasCPAs of
        None \<Rightarrow> None
      | Some cpiStatus' \<Rightarrow> map_option ((#) cpiStatus') (enrichStatuses_match cpiStatuses atlasCPAs))"

text \<open>
  Then the statuses without a configured match (no role ARN, or no role identifier yet) take
  the roles without an ARN, first status with first role, until the roles run out
  (\<^verbatim>\<open>break\<close>). The result is the statuses and the roles nobody took.
\<close>

definition hasConfiguredMatch :: "StatusCloudProviderIntegration \<Rightarrow> bool" where
  "hasConfiguredMatch cpiStatus \<longleftrightarrow>
     st_IamAssumedRoleArn cpiStatus \<noteq> '''' \<and> st_RoleID cpiStatus \<noteq> ''''"

fun enrichStatuses_claim ::
  "StatusCloudProviderIntegration list \<Rightarrow> CloudProviderAccessRole list \<Rightarrow>
   (StatusCloudProviderIntegration list \<times> CloudProviderAccessRole list) option" where
  "enrichStatuses_claim [] noMatch = Some ([], noMatch)"
| "enrichStatuses_claim (cpiStatus # cpiStatuses) noMatch =
     (if hasConfiguredMatch cpiStatus
      then map_option (\<lambda>(rest, noMatch'). (cpiStatus # rest, noMatch'))
             (enrichStatuses_claim cpiStatuses noMatch)
      else (case noMatch of
              [] \<Rightarrow> Some (cpiStatus # cpiStatuses, [])
            | cpa # noMatch' \<Rightarrow>
                (case copyCloudProviderAccessData cpiStatus cpa of
                   None \<Rightarrow> None
                 | Some cpiStatus' \<Rightarrow>
                     map_option (\<lambda>(rest, noMatch''). (cpiStatus' # rest, noMatch''))
                       (enrichStatuses_claim cpiStatuses noMatch'))))"

definition cpiKey :: "string \<Rightarrow> string \<Rightarrow> string" where
  "cpiKey providerName arn = providerName @ ''.'' @ arn"

definition deleteStatus :: "CloudProviderAccessRole \<Rightarrow> StatusCloudProviderIntegration option" where
  "deleteStatus cpa =
     map_option (\<lambda>s. s\<lparr>st_Status := CloudProviderIntegrationStatusDeAuthorize\<rparr>)
       (copyCloudProviderAccessData
          (NewCloudProviderIntegration (cpa_ProviderName cpa) (cpa_IAMAssumedRoleARN cpa)) cpa)"

text \<open>
  The removals: a role with an ARN whose key is the key of no status with an ARN. The map
  \<^verbatim>\<open>cpiStatusesMap\<close> of the source is read for the presence of a key only, so it is the list
  of its keys here, and the lookup is \<open>mapHasKey\<close>.
\<close>

fun mapHasKey :: "string list \<Rightarrow> string \<Rightarrow> bool" where
  "mapHasKey [] key = False"
| "mapHasKey (k # keys) key = (if k = key then True else mapHasKey keys key)"

fun enrichStatuses_removals ::
  "string list \<Rightarrow> CloudProviderAccessRole list \<Rightarrow> StatusCloudProviderIntegration list option" where
  "enrichStatuses_removals keys [] = Some []"
| "enrichStatuses_removals keys (cpa # atlasCPAs) =
     (if cpa_IAMAssumedRoleARN cpa = '''' then enrichStatuses_removals keys atlasCPAs
      else if mapHasKey keys (cpiKey (cpa_ProviderName cpa) (cpa_IAMAssumedRoleARN cpa))
      then enrichStatuses_removals keys atlasCPAs
      else (case deleteStatus cpa of
              None \<Rightarrow> None
            | Some d \<Rightarrow> map_option ((#) d) (enrichStatuses_removals keys atlasCPAs)))"

fun enrichStatuses_unclaimed ::
  "CloudProviderAccessRole list \<Rightarrow> StatusCloudProviderIntegration list option" where
  "enrichStatuses_unclaimed [] = Some []"
| "enrichStatuses_unclaimed (cpa # noMatch) =
     (case deleteStatus cpa of
        None \<Rightarrow> None
      | Some d \<Rightarrow> map_option ((#) d) (enrichStatuses_unclaimed noMatch))"

definition enrichStatuses ::
  "StatusCloudProviderIntegration list \<Rightarrow> CloudProviderAccessRole list \<Rightarrow>
   StatusCloudProviderIntegration list option" where
  "enrichStatuses cpiStatuses atlasCPAs =
     (case enrichStatuses_match cpiStatuses atlasCPAs of
        None \<Rightarrow> None
      | Some matched \<Rightarrow>
          (case enrichStatuses_claim matched
                  (filter (\<lambda>cpa. cpa_IAMAssumedRoleARN cpa = '''') atlasCPAs) of
             None \<Rightarrow> None
           | Some (claimed, noMatch) \<Rightarrow>
               (case enrichStatuses_removals
                       (map (\<lambda>s. cpiKey (st_ProviderName s) (st_IamAssumedRoleArn s))
                          (filter (\<lambda>s. st_IamAssumedRoleArn s \<noteq> '''') claimed))
                       atlasCPAs of
                  None \<Rightarrow> None
                | Some removals \<Rightarrow>
                    (case enrichStatuses_unclaimed noMatch of
                       None \<Rightarrow> None
                     | Some unclaimed \<Rightarrow> Some (claimed @ removals @ unclaimed)))))"

text \<open>
  The three remote operations on one status. Each returns the context after the call and the
  status as the source leaves it; \<open>None\<close> is the panic of \<open>copyCloudProviderAccessData\<close>.
\<close>

definition createCloudProviderAccess ::
  "'r CloudProviderAccessService \<Rightarrow> 'r Context \<Rightarrow> string \<Rightarrow> StatusCloudProviderIntegration \<Rightarrow>
   ('r Context \<times> StatusCloudProviderIntegration) option" where
  "createCloudProviderAccess client workflowCtx projectID cpiStatus =
     (case issue workflowCtx (CreateRoleCall projectID (st_ProviderName cpiStatus))
             (CreateRole client (ctx_remote workflowCtx) projectID (st_ProviderName cpiStatus)) of
        (Inl err, ctx') \<Rightarrow>
          Some (ctx', cpiStatus\<lparr>st_Status := CloudProviderIntegrationStatusFailedToCreate,
                                st_ErrorMessage := err\<rparr>)
      | (Inr cpa, ctx') \<Rightarrow> map_option (Pair ctx') (copyCloudProviderAccessData cpiStatus cpa))"

definition authorizeCloudProviderAccess ::
  "'r CloudProviderAccessService \<Rightarrow> 'r Context \<Rightarrow> string \<Rightarrow> StatusCloudProviderIntegration \<Rightarrow>
   ('r Context \<times> StatusCloudProviderIntegration) option" where
  "authorizeCloudProviderAccess client workflowCtx projectID cpiStatus =
     (case issue workflowCtx
             (AuthorizeRoleCall projectID (st_RoleID cpiStatus) (st_ProviderName cpiStatus)
                (st_IamAssumedRoleArn cpiStatus))
             (AuthorizeRole client (ctx_remote workflowCtx) projectID (st_RoleID cpiStatus)
                (st_ProviderName cpiStatus) (st_IamAssumedRoleArn cpiStatus)) of
        (Inl err, ctx') \<Rightarrow>
          Some (ctx', cpiStatus\<lparr>st_Status := CloudProviderIntegrationStatusFailedToAuthorize,
                                st_ErrorMessage := err\<rparr>)
      | (Inr cpa, ctx') \<Rightarrow> map_option (Pair ctx') (copyCloudProviderAccessData cpiStatus cpa))"

definition deleteCloudProviderAccess ::
  "'r CloudProviderAccessService \<Rightarrow> 'r Context \<Rightarrow> string \<Rightarrow> StatusCloudProviderIntegration \<Rightarrow>
   'r Context \<times> StatusCloudProviderIntegration" where
  "deleteCloudProviderAccess client workflowCtx projectID cpiStatus =
     (case issue workflowCtx
             (DeauthorizeRoleCall (st_ProviderName cpiStatus) projectID (st_RoleID cpiStatus))
             (DeauthorizeRole client (ctx_remote workflowCtx) (st_ProviderName cpiStatus) projectID
                (st_RoleID cpiStatus)) of
        (Some err, ctx') \<Rightarrow>
          (ctx', cpiStatus\<lparr>st_Status := CloudProviderIntegrationStatusFailedToDeAuthorize,
                           st_ErrorMessage := err\<rparr>)
      | (None, ctx') \<Rightarrow> (ctx', cpiStatus))"

text \<open>
  One turn of the loop of \<open>syncCloudProviderIntegration\<close>: the switch on the phase. The result
  is the context, the status after the turn, and whether the turn appends it to
  \<^verbatim>\<open>cpiStatusesToUpdate\<close>.
\<close>

definition syncStep ::
  "'r CloudProviderAccessService \<Rightarrow> 'r Context \<Rightarrow> string \<Rightarrow> StatusCloudProviderIntegration \<Rightarrow>
   ('r Context \<times> StatusCloudProviderIntegration \<times> bool) option" where
  "syncStep client workflowCtx projectID cpiStatus =
     (case st_Status cpiStatus of
        CloudProviderIntegrationStatusNew \<Rightarrow>
          map_option (\<lambda>(ctx', s). (ctx', s, True))
            (createCloudProviderAccess client workflowCtx projectID cpiStatus)
      | CloudProviderIntegrationStatusFailedToCreate \<Rightarrow>
          map_option (\<lambda>(ctx', s). (ctx', s, True))
            (createCloudProviderAccess client workflowCtx projectID cpiStatus)
      | CloudProviderIntegrationStatusCreated \<Rightarrow>
          (if st_IamAssumedRoleArn cpiStatus \<noteq> ''''
           then map_option (\<lambda>(ctx', s). (ctx', s, True))
                  (authorizeCloudProviderAccess client workflowCtx projectID cpiStatus)
           else Some (workflowCtx, cpiStatus, True))
      | CloudProviderIntegrationStatusFailedToAuthorize \<Rightarrow>
          (if st_IamAssumedRoleArn cpiStatus \<noteq> ''''
           then map_option (\<lambda>(ctx', s). (ctx', s, True))
                  (authorizeCloudProviderAccess client workflowCtx projectID cpiStatus)
           else Some (workflowCtx, cpiStatus, True))
      | CloudProviderIntegrationStatusDeAuthorize \<Rightarrow>
          (case deleteCloudProviderAccess client workflowCtx projectID cpiStatus of
             (ctx', s) \<Rightarrow> Some (ctx', s, False))
      | CloudProviderIntegrationStatusFailedToDeAuthorize \<Rightarrow>
          (case deleteCloudProviderAccess client workflowCtx projectID cpiStatus of
             (ctx', s) \<Rightarrow> Some (ctx', s, False))
      | CloudProviderIntegrationStatusAuthorized \<Rightarrow> Some (workflowCtx, cpiStatus, True))"

text \<open>
  The loop, with the accumulators of the source: \<open>cpiStatusesToUpdate\<close> and \<open>withError\<close>.
  \<open>visited\<close> collects every status as its turn leaves it (in the source they stay behind the
  pointers of \<^verbatim>\<open>cpiStatuses\<close>).
\<close>

fun syncLoop ::
  "'r CloudProviderAccessService \<Rightarrow> string \<Rightarrow> StatusCloudProviderIntegration list \<Rightarrow> 'r Context \<Rightarrow>
   StatusCloudProviderIntegration list \<Rightarrow> StatusCloudProviderIntegration list \<Rightarrow> bool \<Rightarrow>
   ('r Context \<times> StatusCloudProviderIntegration list \<times> StatusCloudProviderIntegration list \<times> bool) option" where
  "syncLoop client projectID [] workflowCtx visited cpiStatusesToUpdate withError =
     Some (workflowCtx, visited, cpiStatusesToUpdate, withError)"
| "syncLoop client projectID (cpiStatus # cpiStatuses) workflowCtx visited cpiStatusesToUpdate withError =
     (case syncStep client workflowCtx projectID cpiStatus of
        None \<Rightarrow> None
      | Some (ctx', s, appended) \<Rightarrow>
          syncLoop client projectID cpiStatuses ctx' (visited @ [s])
            (if appended then cpiStatusesToUpdate @ [s] else cpiStatusesToUpdate)
            (if st_ErrorMessage s \<noteq> '''' then True else withError))"

text \<open>
  The statuses the loop appends to \<^verbatim>\<open>cpiStatusesToUpdate\<close> are, as the turns leave them, the ones
  in neither removal phase.
\<close>

definition retained :: "StatusCloudProviderIntegration \<Rightarrow> bool" where
  "retained s \<longleftrightarrow> st_Status s \<noteq> CloudProviderIntegrationStatusDeAuthorize \<and>
     st_Status s \<noteq> CloudProviderIntegrationStatusFailedToDeAuthorize"

fun allAuthorized :: "StatusCloudProviderIntegration list \<Rightarrow> bool" where
  "allAuthorized [] = True"
| "allAuthorized (cpiStatus # cpiStatuses) =
     (if st_Status cpiStatus \<noteq> CloudProviderIntegrationStatusAuthorized then False
      else allAuthorized cpiStatuses)"

text \<open>
  \<open>syncCloudProviderIntegration\<close> returns the context and the pair of the source: the flag and
  the error (its message), if any.
\<close>

definition syncCloudProviderIntegration ::
  "'r CloudProviderAccessService \<Rightarrow> 'r Context \<Rightarrow> string \<Rightarrow> CloudProviderIntegration list \<Rightarrow>
   ('r Context \<times> bool \<times> string option) option" where
  "syncCloudProviderIntegration client workflowCtx projectID cpaSpecs =
     (case issue workflowCtx (ListRolesCall projectID)
             (ListRoles client (ctx_remote workflowCtx) projectID) of
        (Inl err, ctx1) \<Rightarrow>
          Some (ctx1, False, Some (''unable to fetch cloud provider access from Atlas: '' @ err))
      | (Inr atlasCPAs, ctx1) \<Rightarrow>
          (case enrichStatuses (initiateStatuses cpaSpecs) (sortAtlasCPAsByRoleID atlasCPAs) of
             None \<Rightarrow> None
           | Some cpiStatuses \<Rightarrow>
               (case syncLoop client projectID cpiStatuses ctx1 [] [] False of
                  None \<Rightarrow> None
                | Some (ctx2, visited, cpiStatusesToUpdate, withError) \<Rightarrow>
                    (let ctx3 = ctx2\<lparr>ctx_statusOption := Some cpiStatusesToUpdate\<rparr>
                     in if withError
                        then Some (ctx3, False, Some ''not all items were synchronized successfully'')
                        else if allAuthorized cpiStatusesToUpdate then Some (ctx3, True, None)
                        else Some (ctx3, False, None)))))"

definition deletionProtectionMessage :: string where
  "deletionProtectionMessage =
     ''unable to reconcile Cloud Provider Integrations due to deletion protection being enabled. see https://dochub.mongodb.org/core/ako-deletion-protection for further information''"

definition ensureCloudProviderIntegration ::
  "'r CloudProviderAccessService \<Rightarrow> (string \<Rightarrow> string + AtlasProjectSpec) \<Rightarrow> string \<Rightarrow>
   'r Context \<Rightarrow> AtlasProject \<Rightarrow> bool \<Rightarrow> ('r Context \<times> Result) option" where
  "ensureCloudProviderIntegration client unmarshal annotationKey workflowCtx project protected =
     (case canCloudProviderIntegrationReconcile client unmarshal annotationKey workflowCtx
             protected project of
        (Inl err, ctx1) \<Rightarrow>
          (let result = Terminate Internal
                 (''unable to resolve ownership for deletion protection: '' @ err)
           in Some (setCondition ctx1 CloudProviderIntegrationReadyType
                      (SetConditionFromResult result), result))
      | (Inr canReconcile, ctx1) \<Rightarrow>
          if \<not> canReconcile
          then (let result = Terminate AtlasDeletionProtection deletionProtectionMessage
                in Some (setCondition ctx1 CloudProviderIntegrationReadyType
                           (SetConditionFromResult result), result))
          else
            (let roleStatuses = Status_CloudProviderIntegrations project;
                 roleSpecs = getCloudProviderIntegrations (Spec project)
             in if length roleSpecs = 0 \<and> length roleStatuses = 0
                then Some (setCondition ctx1 CloudProviderIntegrationReadyType UnsetCondition, OK)
                else
                  (case syncCloudProviderIntegration client ctx1 (ID project) roleSpecs of
                     None \<Rightarrow> None
                   | Some (ctx2, _, Some err) \<Rightarrow>
                       (let result = Terminate ProjectCloudIntegrationsIsNotReadyInAtlas err
                        in Some (setCondition ctx2 CloudProviderIntegrationReadyType
                                   (SetConditionFromResult result), result))
                   | Some (ctx2, authorized, None) \<Rightarrow>
                       if \<not> authorized
                       then Some (setCondition ctx2 CloudProviderIntegrationReadyType
                                    SetConditionFalse,
                                  InProgress ProjectCloudIntegrationsIsNotReadyInAtlas
                                    ''not all entries are authorized'')
                       else
                         Some (setCondition ctx2 CloudProviderIntegrationReadyType
                                 (SetConditionTrueMsg
                                    (if length (CloudProviderAccessRoles (Spec project)) > 0
                                     then ''The CloudProviderAccessRole has been deprecated, please move your configuration under CloudProviderIntegration.''
                                     else '''')),
                               OK))))"

section \<open>Private endpoints of a data federation\<close>


text \<open>
  The two loops of \<open>syncPrivateEndpointsWithAtlas\<close>: each stops at the first call that fails and
  returns its error.
\<close>

fun createEndpoints ::
  "'r DataFederationServiceOp \<Rightarrow> string \<Rightarrow> DataFederationPE list \<Rightarrow> 'r Context \<Rightarrow>
   string option \<times> 'r Context" where
  "createEndpoints clientDF projectID [] ctx = (None, ctx)"
| "createEndpoints clientDF projectID (endpoint # endpointsToCreate) ctx =
     (case issue ctx (CreateOnePrivateEndpointCall projectID endpoint)
             (CreateOnePrivateEndpoint clientDF (ctx_remote ctx) projectID endpoint) of
        (Some err, ctx') \<Rightarrow> (Some err, ctx')
      | (None, ctx') \<Rightarrow> createEndpoints clientDF projectID endpointsToCreate ctx')"

fun deleteEndpoints ::
  "'r DataFederationServiceOp \<Rightarrow> string \<Rightarrow> DataFederationPE list \<Rightarrow> 'r Context \<Rightarrow>
   string option \<times> 'r Context" where
  "deleteEndpoints clientDF projectID [] ctx = (None, ctx)"
| "deleteEndpoints clientDF projectID (endpoint # endpointsToDelete) ctx =
     (case issue ctx (DeleteOnePrivateEndpointCall projectID (EndpointID endpoint))
             (DeleteOnePrivateEndpoint clientDF (ctx_remote ctx) projectID (EndpointID endpoint)) of
        (Some err, ctx') \<Rightarrow> (Some err, ctx')
      | (None, ctx') \<Rightarrow> deleteEndpoints clientDF projectID endpointsToDelete ctx')"

definition endpointsToCreate :: "DataFederationPE list \<Rightarrow> DataFederationPE list \<Rightarrow> DataFederationPE list" where
  "endpointsToCreate specPEs atlasPEs = Difference DataFederationPE_Identifier specPEs atlasPEs"

definition endpointsToDelete :: "DataFederationPE list \<Rightarrow> DataFederationPE list \<Rightarrow> DataFederationPE list" where
  "endpointsToDelete specPEs atlasPEs = Difference DataFederationPE_Identifier atlasPEs specPEs"

definition syncPrivateEndpointsWithAtlas ::
  "'r DataFederationServiceOp \<Rightarrow> 'r Context \<Rightarrow> string \<Rightarrow> DataFederationPE list \<Rightarrow>
   DataFederationPE list \<Rightarrow> Result \<times> 'r Context" where
  "syncPrivateEndpointsWithAtlas clientDF ctx projectID specPEs atlasPEs =
     (case createEndpoints clientDF projectID (endpointsToCreate specPEs atlasPEs) ctx of
        (Some err, ctx1) \<Rightarrow> (Terminate Internal err, ctx1)
      | (None, ctx1) \<Rightarrow>
          (case deleteEndpoints clientDF projectID (endpointsToDelete specPEs atlasPEs) ctx1 of
             (Some err, ctx2) \<Rightarrow> (Terminate Internal err, ctx2)
           | (None, ctx2) \<Rightarrow> (OK, ctx2)))"


section \<open>An in-memory remote service for concrete runs\<close>

text \<open>
  The service keeps the list of its roles. Listing returns it; creating registers a role of
  the provider with a fresh identifier, no ARN and no authorization date; authorizing sets the
  ARN and the authorization date of the role with the identifier given; deauthorizing drops
  that role. Nothing fails unless the role to authorize is unknown.
\<close>

definition memoryRole :: "string \<Rightarrow> string \<Rightarrow> string \<Rightarrow> string \<Rightarrow> CloudProviderAccessRole" where
  "memoryRole providerName roleID arn authorizedDate =
     \<lparr>cpa_AtlasAWSAccountARN = ''arn:aws:iam::atlas'', cpa_AtlasAssumedRoleExternalID = ''ext'',
      cpa_AuthorizedDate = authorizedDate, cpa_CreatedDate = ''2023-01-01'',
      cpa_FeatureUsages = [], cpa_IAMAssumedRoleARN = arn, cpa_ProviderName = providerName,
      cpa_RoleID = roleID\<rparr>"

definition memoryService :: "CloudProviderAccessRole list CloudProviderAccessService" where
  "memoryService =
     \<lparr>ListRoles = (\<lambda>roles projectID. (Inr roles, roles)),
      CreateRole = (\<lambda>roles projectID providerName.
        (let r = memoryRole providerName (''r'' @ replicate (length roles) CHR ''1'') '''' ''''
         in (Inr r, roles @ [r]))),
      AuthorizeRole = (\<lambda>roles projectID roleID providerName arn.
        (case find (\<lambda>r. cpa_RoleID r = roleID) roles of
           None \<Rightarrow> (Inl ''role not found'', roles)
         | Some r \<Rightarrow>
             (let r' = r\<lparr>cpa_IAMAssumedRoleARN := arn, cpa_AuthorizedDate := ''2023-01-02''\<rparr>
              in (Inr r', map (\<lambda>x. if cpa_RoleID x = roleID then r' else x) roles)))),
      DeauthorizeRole = (\<lambda>roles providerName groupID roleID.
        (None, filter (\<lambda>r. cpa_RoleID r \<noteq> roleID) roles))\<rparr>"

text \<open>Two remote roles without an ARN whose identifiers are not in the order of their creation.\<close>

definition olderRole :: CloudProviderAccessRole where
  "olderRole = (memoryRole ''AWS'' ''b'' '''' '''')\<lparr>cpa_CreatedDate := ''2023-01-01''\<rparr>"

definition newerRole :: CloudProviderAccessRole where
  "newerRole = (memoryRole ''AWS'' ''a'' '''' '''')\<lparr>cpa_CreatedDate := ''2023-06-01''\<rparr>"

text \<open>The same service when every create, authorize and deauthorize call fails.\<close>

definition unavailableService :: "CloudProviderAccessRole list CloudProviderAccessService" where
  "unavailableService =
     \<lparr>ListRoles = (\<lambda>roles projectID. (Inr roles, roles)),
      CreateRole = (\<lambda>roles projectID providerName. (Inl ''service unavailable'', roles)),
      AuthorizeRole = (\<lambda>roles projectID roleID providerName arn.
        (Inl ''service unavailable'', roles)),
      DeauthorizeRole = (\<lambda>roles providerName groupID roleID.
        (Some ''service unavailable'', roles))\<rparr>"

definition startContext :: "'r \<Rightarrow> 'r Context" where
  "startContext r = \<lparr>ctx_remote = r, ctx_calls = [], ctx_conditions = [], ctx_statusOption = None\<rparr>"

definition aws :: "string \<Rightarrow> CloudProviderIntegration" where
  "aws arn = \<lparr>ProviderName = ''AWS'', IamAssumedRoleArn = arn\<rparr>"

definition projectOf ::
  "(string \<Rightarrow> string option) \<Rightarrow> CloudProviderIntegration list \<Rightarrow> AtlasProject" where
  "projectOf annotations integrations =
     \<lparr>Annotations = annotations,
      Spec = \<lparr>CloudProviderAccessRoles = [], CloudProviderIntegrations = integrations\<rparr>,
      Status_CloudProviderIntegrations = [], ID = ''p1''\<rparr>"

definition lastAppliedKey :: string where
  "lastAppliedKey = ''mongodb.com/last-applied-configuration''"

text \<open>
  Two decoders for concrete runs: one that decodes every string to the configuration given,
  and one that rejects the truncated document \<open>{\<close> as the JSON decoder does.
\<close>

definition decodesTo :: "CloudProviderIntegration list \<Rightarrow> string \<Rightarrow> string + AtlasProjectSpec" where
  "decodesTo integrations s =
     Inr \<lparr>CloudProviderAccessRoles = [], CloudProviderIntegrations = integrations\<rparr>"

definition rejectsTruncated :: "string \<Rightarrow> string + AtlasProjectSpec" where
  "rejectsTruncated s =
     (if s = ''{'' then Inl ''unexpected end of JSON input'' else Inr emptyAtlasProjectSpec)"

text \<open>In-memory data federation services: one that works, and one that is unavailable.\<close>

definition memoryDataFederation :: "DataFederationPE list DataFederationServiceOp" where
  "memoryDataFederation =
     \<lparr>GetAllPrivateEndpoints = (\<lambda>pes projectID. ((Some pes, None), pes)),
      CreateOnePrivateEndpoint = (\<lambda>pes projectID pe. (None, pes @ [pe])),
      DeleteOnePrivateEndpoint = (\<lambda>pes projectID endpointID.
        (None, filter (\<lambda>pe. EndpointID pe \<noteq> endpointID) pes))\<rparr>"



definition awsEndpoint :: "string \<Rightarrow> DataFederationPE" where
  "awsEndpoint endpointID = \<lparr>EndpointID = endpointID, Provider = ''AWS'', PEType = ''DATA_LAKE''\<rparr>"

section \<open>Properties of the ownership resolver\<close>

lemma Difference_empty_iff:
  "Difference f left right = [] \<longleftrightarrow> f ` set left - f ` set right = {}"
  by (auto simp: Difference_def filter_empty_conv)

lemma canReconcile_unprotected:
  "canCloudProviderIntegrationReconcile client unmarshal k ctx False p = (Inr True, ctx)"
  by (simp add: canCloudProviderIntegrationReconcile_def)

lemma canReconcile_malformed:
  "lastAppliedConfiguration unmarshal k p = Inl err \<Longrightarrow>
   canCloudProviderIntegrationReconcile client unmarshal k ctx True p = (Inl err, ctx)"
  by (simp add: canCloudProviderIntegrationReconcile_def)

lemma canReconcile_listFailed:
  "lastAppliedConfiguration unmarshal k p = Inr latest \<Longrightarrow>
   ListRoles client (ctx_remote ctx) (ID p) = (Inl err, r') \<Longrightarrow>
   canCloudProviderIntegrationReconcile client unmarshal k ctx True p =
     (Inl err, ctx\<lparr>ctx_remote := r', ctx_calls := ctx_calls ctx @ [ListRolesCall (ID p)]\<rparr>)"
  by (simp add: canCloudProviderIntegrationReconcile_def issue_def)

lemma canReconcile_listed:
  "lastAppliedConfiguration unmarshal k p = Inr latest \<Longrightarrow>
   ListRoles client (ctx_remote ctx) (ID p) = (Inr roles, r') \<Longrightarrow>
   canCloudProviderIntegrationReconcile client unmarshal k ctx True p =
     (Inr (spec_OwnershipResolver True
            (map roleIdentity (filter (\<lambda>r. cpa_IAMAssumedRoleARN r \<noteq> '''') roles))
            (getCloudProviderIntegrations latest) (getCloudProviderIntegrations (Spec p))),
      ctx\<lparr>ctx_remote := r', ctx_calls := ctx_calls ctx @ [ListRolesCall (ID p)]\<rparr>)"
  by (simp add: canCloudProviderIntegrationReconcile_def issue_def Let_def
      spec_OwnershipResolver_def Difference_empty_iff)

text \<open>
  A denial comes only from a protected resource whose snapshot decoded and whose role list was
  fetched: the context then holds that one call more and is otherwise unchanged.
\<close>

lemma canReconcile_denied:
  assumes "canCloudProviderIntegrationReconcile client unmarshal k ctx protected p = (Inr False, ctx1)"
  shows "protected \<and>
         ctx1 = ctx\<lparr>ctx_remote := snd (ListRoles client (ctx_remote ctx) (ID p)),
                    ctx_calls := ctx_calls ctx @ [ListRolesCall (ID p)]\<rparr>"
proof -
  have prot: protected
    using assms by (cases protected) (simp_all add: canReconcile_unprotected)
  obtain latest where latest: "lastAppliedConfiguration unmarshal k p = Inr latest"
    using assms prot
    by (cases "lastAppliedConfiguration unmarshal k p") (simp_all add: canReconcile_malformed)
  obtain answer r' where l: "ListRoles client (ctx_remote ctx) (ID p) = (answer, r')"
    by (cases "ListRoles client (ctx_remote ctx) (ID p)")
  show ?thesis
  proof (cases answer)
    case (Inl err)
    with assms prot latest l show ?thesis by (simp add: canReconcile_listFailed)
  next
    case (Inr roles)
    with assms prot latest l show ?thesis by (simp add: canReconcile_listed)
  qed
qed

text \<open>
  Claim C1, as amended. The resolver follows the four steps of the specification with the
  remote list read as the remote roles that carry a non-empty IAM assumed-role ARN: it permits
  at once when deletion protection is off; otherwise it permits when no remote role carries an
  ARN, when the identifiers of those roles all occur in the last applied configuration, and
  otherwise exactly when every identifier of the current configuration occurs among them.
  This holds when the last applied snapshot decodes and the role list is fetched; a snapshot
  that does not decode (before any fetch) and a failed fetch are returned as the error.
\<close>

theorem resolver_four_steps_on_authorized_roles:
  "fst (canCloudProviderIntegrationReconcile client unmarshal k ctx protected p) =
     (if \<not> protected then Inr True
      else case lastAppliedConfiguration unmarshal k p of
             Inl err \<Rightarrow> Inl err
           | Inr latest \<Rightarrow>
               (case fst (ListRoles client (ctx_remote ctx) (ID p)) of
                  Inl err \<Rightarrow> Inl err
                | Inr roles \<Rightarrow>
                    Inr (spec_OwnershipResolver True
                           (map roleIdentity (filter (\<lambda>r. cpa_IAMAssumedRoleARN r \<noteq> '''') roles))
                           (getCloudProviderIntegrations latest)
                           (getCloudProviderIntegrations (Spec p)))))"
proof (cases protected)
  case False
  then show ?thesis by (simp add: canReconcile_unprotected)
next
  case True
  show ?thesis
  proof (cases "lastAppliedConfiguration unmarshal k p")
    case (Inl err)
    with True show ?thesis by (simp add: canReconcile_malformed)
  next
    case (Inr latest)
    obtain answer r' where l: "ListRoles client (ctx_remote ctx) (ID p) = (answer, r')"
      by (cases "ListRoles client (ctx_remote ctx) (ID p)")
    show ?thesis
    proof (cases answer)
      case (Inl err)
      with True Inr l show ?thesis by (simp add: canReconcile_listFailed)
    next
      case (Inr roles)
      with True \<open>lastAppliedConfiguration unmarshal k p = Inr latest\<close> l show ?thesis
        by (simp add: canReconcile_listed)
    qed
  qed
qed

text \<open>
  The second half of scenario B: last applied \<open>arn:aws:iam::1\<close>, remote \<open>::1\<close> and \<open>::2\<close>,
  current \<open>::3\<close>; the resolver denies.
\<close>

theorem resolver_four_steps_on_authorized_roles_witness:
  "fst (canCloudProviderIntegrationReconcile memoryService (decodesTo [aws ''arn:aws:iam::1''])
          lastAppliedKey
          (startContext [memoryRole ''AWS'' ''r1'' ''arn:aws:iam::1'' ''2023-01-02'',
                         memoryRole ''AWS'' ''r2'' ''arn:aws:iam::2'' ''2023-01-02''])
          True (projectOf [lastAppliedKey \<mapsto> ''{}''] [aws ''arn:aws:iam::3''])) = Inr False"
  using resolver_four_steps_on_authorized_roles [of memoryService "decodesTo [aws ''arn:aws:iam::1'']"
      lastAppliedKey
      "startContext [memoryRole ''AWS'' ''r1'' ''arn:aws:iam::1'' ''2023-01-02'',
                     memoryRole ''AWS'' ''r2'' ''arn:aws:iam::2'' ''2023-01-02'']"
      True "projectOf [lastAppliedKey \<mapsto> ''{}''] [aws ''arn:aws:iam::3'']"]
  by (simp add: lastAppliedConfiguration_def projectOf_def decodesTo_def memoryService_def
      startContext_def memoryRole_def spec_OwnershipResolver_def roleIdentity_def
      getCloudProviderIntegrations_def aws_def Identifier_def)

text \<open>
  Claim C1 as stated fails on the remote list as fetched. One remote role without an ARN, an
  empty last applied configuration and the current item \<open>arn:aws:iam::1\<close>: the fetched list is
  not empty, its identifier \<open>AWS.\<close> is unknown to the last applied configuration, and the
  current identifier is not among the remote ones, so the four steps deny; the code permits.
\<close>

theorem resolver_four_steps_counterexample:
  "fst (canCloudProviderIntegrationReconcile memoryService (decodesTo []) lastAppliedKey
          (startContext [memoryRole ''AWS'' ''r1'' '''' '''']) True
          (projectOf Map.empty [aws ''arn:aws:iam::1''])) = Inr True
   \<and> fst (ListRoles memoryService [memoryRole ''AWS'' ''r1'' '''' ''''] ''p1'')
       = Inr [memoryRole ''AWS'' ''r1'' '''' '''']
   \<and> spec_OwnershipResolver True (map roleIdentity [memoryRole ''AWS'' ''r1'' '''' ''''])
         [] [aws ''arn:aws:iam::1''] = False"
  by (simp add: canCloudProviderIntegrationReconcile_def lastAppliedConfiguration_def
      projectOf_def decodesTo_def memoryService_def issue_def
      startContext_def memoryRole_def spec_OwnershipResolver_def roleIdentity_def
      getCloudProviderIntegrations_def aws_def Identifier_def)

text \<open>
  Claim C7, as amended. For every current configuration, and every last applied snapshot that is
  absent or decodes, the resolver permits when the fetched remote list is empty, whether
  deletion protection is on or off.
\<close>

theorem resolver_permits_empty_remote:
  assumes "lastAppliedConfiguration unmarshal k p = Inr latest"
    and "fst (ListRoles client (ctx_remote ctx) (ID p)) = Inr []"
  shows "fst (canCloudProviderIntegrationReconcile client unmarshal k ctx protected p) = Inr True"
proof (cases protected)
  case False
  then show ?thesis by (simp add: canReconcile_unprotected)
next
  case True
  obtain r' where "ListRoles client (ctx_remote ctx) (ID p) = (Inr [], r')"
    using assms(2) by (cases "ListRoles client (ctx_remote ctx) (ID p)") simp
  with True assms(1) show ?thesis
    by (simp add: canReconcile_listed spec_OwnershipResolver_def)
qed

theorem resolver_permits_empty_remote_witness:
  "lastAppliedConfiguration (decodesTo [aws ''arn:aws:iam::1'']) lastAppliedKey
     (projectOf [lastAppliedKey \<mapsto> ''{}''] [aws ''arn:aws:iam::3''])
     = Inr \<lparr>CloudProviderAccessRoles = [], CloudProviderIntegrations = [aws ''arn:aws:iam::1'']\<rparr>
   \<and> fst (ListRoles memoryService [] ''p1'') = Inr []
   \<and> fst (canCloudProviderIntegrationReconcile memoryService (decodesTo [aws ''arn:aws:iam::1''])
            lastAppliedKey (startContext [])
            True (projectOf [lastAppliedKey \<mapsto> ''{}''] [aws ''arn:aws:iam::3''])) = Inr True"
proof -
  have a: "lastAppliedConfiguration (decodesTo [aws ''arn:aws:iam::1'']) lastAppliedKey
     (projectOf [lastAppliedKey \<mapsto> ''{}''] [aws ''arn:aws:iam::3''])
     = Inr \<lparr>CloudProviderAccessRoles = [], CloudProviderIntegrations = [aws ''arn:aws:iam::1'']\<rparr>"
    by (simp add: lastAppliedConfiguration_def projectOf_def decodesTo_def)
  have b: "fst (ListRoles memoryService (ctx_remote (startContext []))
                  (ID (projectOf [lastAppliedKey \<mapsto> ''{}''] [aws ''arn:aws:iam::3'']))) = Inr []"
    by (simp add: memoryService_def startContext_def)
  have c: "fst (ListRoles memoryService [] ''p1'') = Inr []"
    by (simp add: memoryService_def)
  from a c resolver_permits_empty_remote [OF a b, of True] show ?thesis by simp
qed

text \<open>
  Claim C7 as stated fails for a snapshot that does not decode: with deletion protection on,
  the truncated snapshot \<open>{\<close> and an empty remote list, the resolver returns the decoding
  error, not a permission.
\<close>

theorem resolver_permits_empty_remote_counterexample:
  "fst (ListRoles memoryService [] ''p1'') = Inr []
   \<and> fst (canCloudProviderIntegrationReconcile memoryService rejectsTruncated lastAppliedKey
            (startContext []) True (projectOf [lastAppliedKey \<mapsto> ''{''] []))
       = Inl ''unexpected end of JSON input''"
  by (simp add: canCloudProviderIntegrationReconcile_def lastAppliedConfiguration_def
      projectOf_def rejectsTruncated_def memoryService_def)

text \<open>
  Claim C9. The resolver considers only the remote roles with a non-empty IAM assumed-role
  ARN: its answer is the one it gives when the service lists those roles alone. When every
  remote role has an empty ARN (and the last applied snapshot decodes), it permits, whatever
  the last applied and the current configuration are.
\<close>

theorem resolver_ignores_unauthorized_roles:
  assumes "ListRoles client (ctx_remote ctx) (ID p) = (Inr roles, r1)"
    and "ListRoles client' (ctx_remote ctx') (ID p) =
           (Inr (filter (\<lambda>r. cpa_IAMAssumedRoleARN r \<noteq> '''') roles), r1')"
  shows "fst (canCloudProviderIntegrationReconcile client unmarshal k ctx protected p) =
         fst (canCloudProviderIntegrationReconcile client' unmarshal k ctx' protected p)
       \<and> (list_all (\<lambda>r. cpa_IAMAssumedRoleARN r = '''') roles \<and>
           lastAppliedConfiguration unmarshal k p = Inr latest \<longrightarrow>
           fst (canCloudProviderIntegrationReconcile client unmarshal k ctx protected p) = Inr True)"
proof (cases protected)
  case False
  then show ?thesis by (simp add: canReconcile_unprotected)
next
  case True
  show ?thesis
  proof (cases "lastAppliedConfiguration unmarshal k p")
    case (Inl err)
    with True show ?thesis by (simp add: canReconcile_malformed)
  next
    case (Inr latest')
    have "list_all (\<lambda>r. cpa_IAMAssumedRoleARN r = '''') roles \<Longrightarrow>
          filter (\<lambda>r. cpa_IAMAssumedRoleARN r \<noteq> '''') roles = []"
      by (simp add: list_all_iff filter_empty_conv)
    with True Inr assms show ?thesis
      by (auto simp add: canReconcile_listed spec_OwnershipResolver_def)
  qed
qed

theorem resolver_ignores_unauthorized_roles_witness:
  "fst (canCloudProviderIntegrationReconcile memoryService (decodesTo [aws ''arn:aws:iam::1''])
          lastAppliedKey
          (startContext [memoryRole ''AWS'' ''r1'' '''' '''', memoryRole ''AWS'' ''r2'' '''' ''''])
          True (projectOf [lastAppliedKey \<mapsto> ''{}''] [aws ''arn:aws:iam::3''])) = Inr True
   \<and> fst (canCloudProviderIntegrationReconcile memoryService (decodesTo [aws ''arn:aws:iam::1''])
          lastAppliedKey (startContext [])
          True (projectOf [lastAppliedKey \<mapsto> ''{}''] [aws ''arn:aws:iam::3''])) = Inr True"
proof -
  let ?roles = "[memoryRole ''AWS'' ''r1'' '''' '''', memoryRole ''AWS'' ''r2'' '''' '''']"
  let ?p = "projectOf [lastAppliedKey \<mapsto> ''{}''] [aws ''arn:aws:iam::3'']"
  have a: "ListRoles memoryService (ctx_remote (startContext ?roles)) (ID ?p) = (Inr ?roles, ?roles)"
    by (simp add: memoryService_def startContext_def)
  have b: "ListRoles memoryService (ctx_remote (startContext [])) (ID ?p) =
             (Inr (filter (\<lambda>r. cpa_IAMAssumedRoleARN r \<noteq> '''') ?roles), [])"
    by (simp add: memoryService_def startContext_def memoryRole_def)
  have c: "list_all (\<lambda>r. cpa_IAMAssumedRoleARN r = '''') ?roles"
    by (simp add: memoryRole_def)
  have d: "lastAppliedConfiguration (decodesTo [aws ''arn:aws:iam::1'']) lastAppliedKey ?p
     = Inr \<lparr>CloudProviderAccessRoles = [], CloudProviderIntegrations = [aws ''arn:aws:iam::1'']\<rparr>"
    by (simp add: lastAppliedConfiguration_def projectOf_def decodesTo_def)
  note r = resolver_ignores_unauthorized_roles [OF a b, of "decodesTo [aws ''arn:aws:iam::1'']"
      lastAppliedKey True
      "\<lparr>CloudProviderAccessRoles = [], CloudProviderIntegrations = [aws ''arn:aws:iam::1'']\<rparr>"]
  from r c d have first: "fst (canCloudProviderIntegrationReconcile memoryService
      (decodesTo [aws ''arn:aws:iam::1'']) lastAppliedKey (startContext ?roles) True ?p) = Inr True"
    by blast
  from r first have "fst (canCloudProviderIntegrationReconcile memoryService
      (decodesTo [aws ''arn:aws:iam::1'']) lastAppliedKey (startContext []) True ?p) = Inr True"
    by (simp only:)
  with first show ?thesis by (simp only: simp_thms)
qed

text \<open>
  Claim C4. When the resolver denies, the pass returns Terminate with the deletion-protection
  reason and message, and it has issued no create, authorize or deauthorize call: the only
  call of the pass is the resolver's fetch of the role list, and nothing is handed over for
  persisting.
\<close>

theorem denied_pass_terminates_without_mutation:
  assumes "fst (canCloudProviderIntegrationReconcile client unmarshal k ctx protected p) = Inr False"
  shows "\<exists>ctx'. ensureCloudProviderIntegration client unmarshal k ctx p protected =
                  Some (ctx', Terminate AtlasDeletionProtection deletionProtectionMessage)
           \<and> ctx_calls ctx' = ctx_calls ctx @ [ListRolesCall (ID p)]
           \<and> filter isMutation (ctx_calls ctx') = filter isMutation (ctx_calls ctx)
           \<and> ctx_statusOption ctx' = ctx_statusOption ctx"
proof -
  obtain ctx1 where c: "canCloudProviderIntegrationReconcile client unmarshal k ctx protected p =
      (Inr False, ctx1)"
    using assms by (cases "canCloudProviderIntegrationReconcile client unmarshal k ctx protected p") simp
  from canReconcile_denied [OF c]
  have ctx1: "ctx1 = ctx\<lparr>ctx_remote := snd (ListRoles client (ctx_remote ctx) (ID p)),
                         ctx_calls := ctx_calls ctx @ [ListRolesCall (ID p)]\<rparr>"
    by simp
  have "ensureCloudProviderIntegration client unmarshal k ctx p protected =
          Some (setCondition ctx1 CloudProviderIntegrationReadyType
                  (SetConditionFromResult (Terminate AtlasDeletionProtection deletionProtectionMessage)),
                Terminate AtlasDeletionProtection deletionProtectionMessage)"
    using c by (simp add: ensureCloudProviderIntegration_def Let_def)
  then show ?thesis
    using ctx1 by (simp add: setCondition_def)
qed

theorem denied_pass_terminates_without_mutation_witness:
  "fst (canCloudProviderIntegrationReconcile memoryService (decodesTo [aws ''arn:aws:iam::1''])
          lastAppliedKey
          (startContext [memoryRole ''AWS'' ''r1'' ''arn:aws:iam::1'' ''2023-01-02'',
                         memoryRole ''AWS'' ''r2'' ''arn:aws:iam::2'' ''2023-01-02''])
          True (projectOf [lastAppliedKey \<mapsto> ''{}''] [aws ''arn:aws:iam::3''])) = Inr False
   \<and> (\<exists>ctx'. ensureCloudProviderIntegration memoryService (decodesTo [aws ''arn:aws:iam::1''])
          lastAppliedKey
          (startContext [memoryRole ''AWS'' ''r1'' ''arn:aws:iam::1'' ''2023-01-02'',
                         memoryRole ''AWS'' ''r2'' ''arn:aws:iam::2'' ''2023-01-02''])
          (projectOf [lastAppliedKey \<mapsto> ''{}''] [aws ''arn:aws:iam::3'']) True =
            Some (ctx', Terminate AtlasDeletionProtection deletionProtectionMessage)
          \<and> ctx_calls ctx' = [ListRolesCall ''p1''])"
proof -
  let ?ctx = "startContext [memoryRole ''AWS'' ''r1'' ''arn:aws:iam::1'' ''2023-01-02'',
                            memoryRole ''AWS'' ''r2'' ''arn:aws:iam::2'' ''2023-01-02'']"
  let ?p = "projectOf [lastAppliedKey \<mapsto> ''{}''] [aws ''arn:aws:iam::3'']"
  have a: "fst (canCloudProviderIntegrationReconcile memoryService (decodesTo [aws ''arn:aws:iam::1''])
          lastAppliedKey ?ctx True ?p) = Inr False"
    by (simp add: canCloudProviderIntegrationReconcile_def lastAppliedConfiguration_def
        projectOf_def decodesTo_def memoryService_def issue_def Difference_def
        startContext_def memoryRole_def roleIdentity_def
        getCloudProviderIntegrations_def aws_def Identifier_def)
  have b: "ctx_calls ?ctx = []" "ID ?p = ''p1''"
    by (simp_all add: startContext_def projectOf_def)
  from a denied_pass_terminates_without_mutation [OF a] b show ?thesis
    by auto
qed

section \<open>Properties of the private endpoint sync\<close>

lemma createEndpoints_calls:
  "createEndpoints c pid es ctx = (res, ctx') \<Longrightarrow>
   \<exists>n\<le>length es. ctx_calls ctx' = ctx_calls ctx @ map (CreateOnePrivateEndpointCall pid) (take n es)
     \<and> (case res of None \<Rightarrow> n = length es
         | Some e \<Rightarrow> 0 < n \<and> (\<exists>r. fst (CreateOnePrivateEndpoint c r pid (es ! (n - 1))) = Some e))"
proof (induction es arbitrary: ctx)
  case Nil
  then show ?case by auto
next
  case (Cons e es)
  obtain ans r' where a: "CreateOnePrivateEndpoint c (ctx_remote ctx) pid e = (ans, r')"
    by (cases "CreateOnePrivateEndpoint c (ctx_remote ctx) pid e")
  let ?ctx1 = "ctx\<lparr>ctx_remote := r', ctx_calls := ctx_calls ctx @ [CreateOnePrivateEndpointCall pid e]\<rparr>"
  show ?case
  proof (cases ans)
    case None
    with Cons.prems a have "createEndpoints c pid es ?ctx1 = (res, ctx')"
      by (simp add: issue_def)
    from Cons.IH [OF this] obtain n where n: "n \<le> length es"
      "ctx_calls ctx' = ctx_calls ?ctx1 @ map (CreateOnePrivateEndpointCall pid) (take n es)"
      "(case res of None \<Rightarrow> n = length es
         | Some e \<Rightarrow> 0 < n \<and> (\<exists>r. fst (CreateOnePrivateEndpoint c r pid (es ! (n - 1))) = Some e))"
      by blast
    show ?thesis
    proof (intro exI [of _ "Suc n"] conjI)
      show "Suc n \<le> length (e # es)" using n(1) by simp
      show "ctx_calls ctx' = ctx_calls ctx @ map (CreateOnePrivateEndpointCall pid) (take (Suc n) (e # es))"
        using n(2) by simp
      show "case res of None \<Rightarrow> Suc n = length (e # es)
         | Some err \<Rightarrow> 0 < Suc n \<and> (\<exists>r. fst (CreateOnePrivateEndpoint c r pid ((e # es) ! (Suc n - 1))) = Some err)"
        using n(3) by (cases res) (auto simp: nth_Cons')
    qed
  next
    case (Some err)
    with Cons.prems a have "res = Some err" "ctx' = ?ctx1"
      by (simp_all add: issue_def)
    then show ?thesis
      using a Some by (intro exI [of _ 1]) (auto intro: exI [of _ "ctx_remote ctx"])
  qed
qed

lemma deleteEndpoints_calls:
  "deleteEndpoints c pid es ctx = (None, ctx') \<Longrightarrow>
   ctx_calls ctx' = ctx_calls ctx @ map (\<lambda>e. DeleteOnePrivateEndpointCall pid (EndpointID e)) es"
proof (induction es arbitrary: ctx)
  case Nil
  then show ?case by simp
next
  case (Cons e es)
  then show ?case
    by (cases "DeleteOnePrivateEndpoint c (ctx_remote ctx) pid (EndpointID e)")
       (auto simp: issue_def split: option.splits)
qed

lemma set_Difference:
  "set (Difference f left right) = {l \<in> set left. f l \<notin> f ` set right}"
  by (auto simp: Difference_def)


lemma sync_ok_calls:
  assumes "syncPrivateEndpointsWithAtlas c ctx pid D R = (OK, ctx')"
  shows "ctx_calls ctx' = ctx_calls ctx @ map (CreateOnePrivateEndpointCall pid) (endpointsToCreate D R)
           @ map (\<lambda>e. DeleteOnePrivateEndpointCall pid (EndpointID e)) (endpointsToDelete D R)"
proof -
  obtain res1 ctx1 where c1: "createEndpoints c pid (endpointsToCreate D R) ctx = (res1, ctx1)"
    by (cases "createEndpoints c pid (endpointsToCreate D R) ctx")
  obtain res2 ctx2 where c2: "deleteEndpoints c pid (endpointsToDelete D R) ctx1 = (res2, ctx2)"
    by (cases "deleteEndpoints c pid (endpointsToDelete D R) ctx1")
  from assms c1 c2 have r: "res1 = None" "res2 = None" "ctx' = ctx2"
    by (auto simp: syncPrivateEndpointsWithAtlas_def split: option.splits)
  from createEndpoints_calls [OF c1] r(1)
  have "ctx_calls ctx1 = ctx_calls ctx @ map (CreateOnePrivateEndpointCall pid) (endpointsToCreate D R)"
    by auto
  moreover from deleteEndpoints_calls c2 r(2)
  have "ctx_calls ctx2 = ctx_calls ctx1 @
          map (\<lambda>e. DeleteOnePrivateEndpointCall pid (EndpointID e)) (endpointsToDelete D R)"
    by blast
  ultimately show ?thesis using r(3) by simp
qed

text \<open>
  Claim C8. For all desired endpoints \<open>D\<close> and remote endpoints \<open>R\<close>, the endpoints to create
  are the items of \<open>D\<close> whose identifier no item of \<open>R\<close> has, and the endpoints to delete the
  items of \<open>R\<close> whose identifier no item of \<open>D\<close> has; the membership of both depends on the
  members of the inputs only, not on their order; and a sync in which no call fails issues
  exactly the create calls for the first and the delete calls for the second.
\<close>

theorem diff_engine_by_identifier:
  "set (endpointsToCreate D R) =
     {d \<in> set D. DataFederationPE_Identifier d \<notin> DataFederationPE_Identifier ` set R}
   \<and> set (endpointsToDelete D R) =
     {r \<in> set R. DataFederationPE_Identifier r \<notin> DataFederationPE_Identifier ` set D}
   \<and> (set D' = set D \<and> set R' = set R \<longrightarrow>
        set (endpointsToCreate D' R') = set (endpointsToCreate D R) \<and>
        set (endpointsToDelete D' R') = set (endpointsToDelete D R))
   \<and> (fst (syncPrivateEndpointsWithAtlas c ctx pid D R) = OK \<longrightarrow>
        ctx_calls (snd (syncPrivateEndpointsWithAtlas c ctx pid D R)) =
          ctx_calls ctx @ map (CreateOnePrivateEndpointCall pid) (endpointsToCreate D R)
            @ map (\<lambda>e. DeleteOnePrivateEndpointCall pid (EndpointID e)) (endpointsToDelete D R))"
proof (intro conjI impI)
  show "set (endpointsToCreate D R) =
     {d \<in> set D. DataFederationPE_Identifier d \<notin> DataFederationPE_Identifier ` set R}"
    by (simp add: endpointsToCreate_def set_Difference)
  show "set (endpointsToDelete D R) =
     {r \<in> set R. DataFederationPE_Identifier r \<notin> DataFederationPE_Identifier ` set D}"
    by (simp add: endpointsToDelete_def set_Difference)
  assume "set D' = set D \<and> set R' = set R"
  then show "set (endpointsToCreate D' R') = set (endpointsToCreate D R)"
    and "set (endpointsToDelete D' R') = set (endpointsToDelete D R)"
    by (simp_all add: endpointsToCreate_def endpointsToDelete_def set_Difference)
next
  assume "fst (syncPrivateEndpointsWithAtlas c ctx pid D R) = OK"
  then have "syncPrivateEndpointsWithAtlas c ctx pid D R =
               (OK, snd (syncPrivateEndpointsWithAtlas c ctx pid D R))"
    by (cases "syncPrivateEndpointsWithAtlas c ctx pid D R") simp
  then show "ctx_calls (snd (syncPrivateEndpointsWithAtlas c ctx pid D R)) =
          ctx_calls ctx @ map (CreateOnePrivateEndpointCall pid) (endpointsToCreate D R)
            @ map (\<lambda>e. DeleteOnePrivateEndpointCall pid (EndpointID e)) (endpointsToDelete D R)"
    by (rule sync_ok_calls)
qed

theorem diff_engine_by_identifier_witness:
  "set (endpointsToCreate [awsEndpoint ''b'', awsEndpoint ''a''] [awsEndpoint ''c'', awsEndpoint ''b''])
     = {awsEndpoint ''a''}
   \<and> set (endpointsToDelete [awsEndpoint ''b'', awsEndpoint ''a''] [awsEndpoint ''c'', awsEndpoint ''b''])
     = {awsEndpoint ''c''}
   \<and> set (endpointsToCreate [awsEndpoint ''a'', awsEndpoint ''b''] [awsEndpoint ''b'', awsEndpoint ''c''])
     = {awsEndpoint ''a''}
   \<and> ctx_calls (snd (syncPrivateEndpointsWithAtlas memoryDataFederation
        (startContext [awsEndpoint ''b'', awsEndpoint ''c'']) ''p1''
        [awsEndpoint ''a'', awsEndpoint ''b''] [awsEndpoint ''b'', awsEndpoint ''c'']))
     = [CreateOnePrivateEndpointCall ''p1'' (awsEndpoint ''a''), DeleteOnePrivateEndpointCall ''p1'' ''c'']"
proof -
  let ?D = "[awsEndpoint ''a'', awsEndpoint ''b'']" and ?R = "[awsEndpoint ''b'', awsEndpoint ''c'']"
  let ?D' = "[awsEndpoint ''b'', awsEndpoint ''a'']" and ?R' = "[awsEndpoint ''c'', awsEndpoint ''b'']"
  have perm: "set ?D' = set ?D \<and> set ?R' = set ?R" by auto
  have ok: "fst (syncPrivateEndpointsWithAtlas memoryDataFederation (startContext ?R) ''p1'' ?D ?R) = OK"
    by (simp add: syncPrivateEndpointsWithAtlas_def endpointsToCreate_def endpointsToDelete_def
        Difference_def DataFederationPE_Identifier_def awsEndpoint_def memoryDataFederation_def
        issue_def startContext_def)
  have ids: "{d \<in> set ?D. DataFederationPE_Identifier d \<notin> DataFederationPE_Identifier ` set ?R}
               = {awsEndpoint ''a''}"
    "{r \<in> set ?R. DataFederationPE_Identifier r \<notin> DataFederationPE_Identifier ` set ?D}
               = {awsEndpoint ''c''}"
    by (auto simp: DataFederationPE_Identifier_def awsEndpoint_def)
  have lists: "endpointsToCreate ?D ?R = [awsEndpoint ''a'']" "endpointsToDelete ?D ?R = [awsEndpoint ''c'']"
    by (simp_all add: endpointsToCreate_def endpointsToDelete_def Difference_def
        DataFederationPE_Identifier_def awsEndpoint_def)
  have c0: "ctx_calls (startContext ?R) = []" by (simp add: startContext_def)
  note t = diff_engine_by_identifier [of ?D ?R ?D' ?R' memoryDataFederation "startContext ?R" "''p1''"]
  from t perm ok have "set (endpointsToCreate ?D' ?R') = {awsEndpoint ''a''}"
    "set (endpointsToDelete ?D' ?R') = {awsEndpoint ''c''}"
    "set (endpointsToCreate ?D ?R) = {awsEndpoint ''a''}"
    "ctx_calls (snd (syncPrivateEndpointsWithAtlas memoryDataFederation (startContext ?R) ''p1'' ?D ?R))
       = [] @ map (CreateOnePrivateEndpointCall ''p1'') [awsEndpoint ''a'']
            @ map (\<lambda>e. DeleteOnePrivateEndpointCall ''p1'' (EndpointID e)) [awsEndpoint ''c'']"
    unfolding ids lists c0 by blast+
  then show ?thesis by (simp add: awsEndpoint_def)
qed





section \<open>Properties of the convergence pass\<close>

lemma copy_Some:
  assumes "copyCloudProviderAccessData s r = Some s'"
  shows "st_ErrorMessage s' = st_ErrorMessage s \<and>
         st_IamAssumedRoleArn s' = st_IamAssumedRoleArn s \<and>
         st_ProviderName s' = st_ProviderName s \<and>
         st_RoleID s' = cpa_RoleID r \<and>
         st_CreatedDate s' = cpa_CreatedDate r \<and>
         st_AuthorizedDate s' = cpa_AuthorizedDate r \<and>
         st_Status s' = (if cpa_AuthorizedDate r \<noteq> ''''
                         then CloudProviderIntegrationStatusAuthorized
                         else CloudProviderIntegrationStatusCreated)"
  using assms by (auto simp: copyCloudProviderAccessData_def Let_def split: if_splits)










lemma create_Status:
  "createCloudProviderAccess c ctx pid s = Some (ctx', s') \<Longrightarrow>
   st_Status s' \<in> {CloudProviderIntegrationStatusFailedToCreate,
     CloudProviderIntegrationStatusCreated, CloudProviderIntegrationStatusAuthorized}"
  by (auto simp: createCloudProviderAccess_def issue_def split: prod.splits sum.splits if_splits
      dest!: copy_Some)

lemma authorize_Status:
  "authorizeCloudProviderAccess c ctx pid s = Some (ctx', s') \<Longrightarrow>
   st_Status s' \<in> {CloudProviderIntegrationStatusFailedToAuthorize,
     CloudProviderIntegrationStatusCreated, CloudProviderIntegrationStatusAuthorized}"
  by (auto simp: authorizeCloudProviderAccess_def issue_def split: prod.splits sum.splits if_splits
      dest!: copy_Some)

lemma delete_Status:
  "deleteCloudProviderAccess c ctx pid s = (ctx', s') \<Longrightarrow>
   st_Status s' = st_Status s \<or> st_Status s' = CloudProviderIntegrationStatusFailedToDeAuthorize"
  by (auto simp: deleteCloudProviderAccess_def issue_def split: prod.splits option.splits)

lemma syncStep_appended:
  assumes "syncStep c ctx pid s = Some (ctx', s', appended)"
  shows "appended = retained s'"
proof (cases "st_Status s")
  case CloudProviderIntegrationStatusNew
  with assms show ?thesis
    by (auto simp: syncStep_def retained_def dest: create_Status)
next
  case CloudProviderIntegrationStatusFailedToCreate
  with assms show ?thesis
    by (auto simp: syncStep_def retained_def dest: create_Status)
next
  case CloudProviderIntegrationStatusCreated
  with assms show ?thesis
    by (auto simp: syncStep_def retained_def split: if_splits dest: authorize_Status)
next
  case CloudProviderIntegrationStatusFailedToAuthorize
  with assms show ?thesis
    by (auto simp: syncStep_def retained_def split: if_splits dest: authorize_Status)
next
  case CloudProviderIntegrationStatusAuthorized
  with assms show ?thesis
    by (auto simp: syncStep_def retained_def)
next
  case CloudProviderIntegrationStatusDeAuthorize
  with assms show ?thesis
    by (auto simp: syncStep_def retained_def split: prod.splits dest: delete_Status)
next
  case CloudProviderIntegrationStatusFailedToDeAuthorize
  with assms show ?thesis
    by (auto simp: syncStep_def retained_def split: prod.splits dest: delete_Status)
qed

lemma syncLoop_accumulates:
  "syncLoop c pid sts ctx vis upd we = Some (ctx', vis', upd', we') \<Longrightarrow>
   \<exists>v. vis' = vis @ v \<and> length v = length sts \<and> upd' = upd @ filter retained v \<and>
       we' = (we \<or> list_ex (\<lambda>s. st_ErrorMessage s \<noteq> '''') v)"
proof (induction sts arbitrary: ctx vis upd we)
  case Nil
  then show ?case by auto
next
  case (Cons s sts)
  from Cons.prems obtain ctx1 s1 a where
    step: "syncStep c ctx pid s = Some (ctx1, s1, a)" and
    rest: "syncLoop c pid sts ctx1 (vis @ [s1]) (if a then upd @ [s1] else upd)
             (if st_ErrorMessage s1 \<noteq> '''' then True else we) = Some (ctx', vis', upd', we')"
    by (auto split: option.splits)
  from Cons.IH [OF rest] obtain v where v:
    "vis' = (vis @ [s1]) @ v" "length v = length sts"
    "upd' = (if a then upd @ [s1] else upd) @ filter retained v"
    "we' = ((if st_ErrorMessage s1 \<noteq> '''' then True else we) \<or> list_ex (\<lambda>s. st_ErrorMessage s \<noteq> '''') v)"
    by blast
  from syncStep_appended [OF step] have a: "a = retained s1" .
  show ?case
    by (rule exI [of _ "s1 # v"]) (use v a in auto)
qed

lemma allAuthorized_iff:
  "allAuthorized sts \<longleftrightarrow> list_all (\<lambda>s. st_Status s = CloudProviderIntegrationStatusAuthorized) sts"
  by (induction sts) auto

lemma sync_listed:
  assumes "ListRoles c (ctx_remote ctx) pid = (Inr roles, r1)"
    and "enrichStatuses (initiateStatuses specs) (sortAtlasCPAsByRoleID roles) = Some sts"
    and "syncLoop c pid sts (ctx\<lparr>ctx_remote := r1, ctx_calls := ctx_calls ctx @ [ListRolesCall pid]\<rparr>)
           [] [] False = Some (ctx2, visited, toUpdate, withError)"
  shows "syncCloudProviderIntegration c ctx pid specs =
     Some (ctx2\<lparr>ctx_statusOption := Some toUpdate\<rparr>,
           (if withError then (False, Some ''not all items were synchronized successfully'')
            else if allAuthorized toUpdate then (True, None) else (False, None)))"
  using assms by (simp add: syncCloudProviderIntegration_def issue_def Let_def)



lemma match_length:
  "enrichStatuses_match sts rs = Some sts' \<Longrightarrow> length sts' = length sts"
  by (induction sts arbitrary: sts') (auto split: option.splits)

lemma claim_pairs_in_order:
  "enrichStatuses_claim sts nm = Some (sts', rest) \<Longrightarrow>
   length sts' = length sts \<and>
   rest = drop (length (filter (\<lambda>s. \<not> hasConfiguredMatch s) sts)) nm \<and>
   (\<forall>i<length sts.
      if \<not> hasConfiguredMatch (sts ! i) \<and>
         length (filter (\<lambda>s. \<not> hasConfiguredMatch s) (take i sts)) < length nm
      then copyCloudProviderAccessData (sts ! i)
             (nm ! length (filter (\<lambda>s. \<not> hasConfiguredMatch s) (take i sts))) = Some (sts' ! i)
      else sts' ! i = sts ! i)"
proof (induction sts arbitrary: nm sts' rest)
  case Nil
  then show ?case by simp
next
  case (Cons s sts)
  note prems = Cons.prems and IH = Cons.IH
  show ?case
  proof (cases "hasConfiguredMatch s")
    case True
    with prems obtain tl' where t: "enrichStatuses_claim sts nm = Some (tl', rest)" and e: "sts' = s # tl'"
      by auto
    from IH [OF t] e True show ?thesis
      by (auto simp: nth_Cons' take_Cons')
  next
    case False
    show ?thesis
    proof (cases nm)
      case Nil
      with False prems have "sts' = s # sts" "rest = []"
        by auto
      with Nil show ?thesis by simp
    next
      case (Cons r nm')
      with False prems obtain s1 tl' where
        c: "copyCloudProviderAccessData s r = Some s1" and
        t: "enrichStatuses_claim sts nm' = Some (tl', rest)" and
        e: "sts' = s1 # tl'"
        by (auto split: option.splits)
      from IH [OF t] e c False Cons show ?thesis
        by (auto simp: nth_Cons' take_Cons')
    qed
  qed
qed

lemma pending_roles_sorted:
  assumes "distinct (map cpa_RoleID roles)"
  shows "sorted_wrt (<) (map cpa_RoleID
           (filter (\<lambda>cpa. cpa_IAMAssumedRoleARN cpa = '''') (sortAtlasCPAsByRoleID roles)))"
proof -
  let ?sorted = "sortAtlasCPAsByRoleID roles"
  have "sorted (map cpa_RoleID ?sorted)"
    by (simp add: sortAtlasCPAsByRoleID_def)
  then have s: "sorted (map cpa_RoleID (filter (\<lambda>cpa. cpa_IAMAssumedRoleARN cpa = '''') ?sorted))"
    by (rule sorted_filter)
  from assms have "distinct (map cpa_RoleID ?sorted)"
    by (simp add: sortAtlasCPAsByRoleID_def distinct_map)
  then have "distinct (map cpa_RoleID (filter (\<lambda>cpa. cpa_IAMAssumedRoleARN cpa = '''') ?sorted))"
    by (rule distinct_map_filter)
  with s show ?thesis
    by (simp add: strict_sorted_iff)
qed

text \<open>
  Claim C3. Once the resolver permits, the project has items and the role list is fetched, the
  pass visits every enriched status and hands over for persisting the visited statuses in
  neither removal phase. Its result follows from these outcomes alone: Terminate with the
  message \<open>not all items were synchronized successfully\<close> if any visited status has a
  non-empty error message (this test comes first); otherwise Ok if every retained status is
  Authorized; otherwise InProgress with the message \<open>not all entries are authorized\<close>.
\<close>

theorem pass_result_aggregation:
  assumes can: "canCloudProviderIntegrationReconcile c u k ctx protected p = (Inr True, ctx1)"
    and items: "\<not> (getCloudProviderIntegrations (Spec p) = [] \<and> Status_CloudProviderIntegrations p = [])"
    and list: "ListRoles c (ctx_remote ctx1) (ID p) = (Inr roles, r2)"
    and enrich: "enrichStatuses (initiateStatuses (getCloudProviderIntegrations (Spec p)))
                   (sortAtlasCPAsByRoleID roles) = Some sts"
    and loop: "syncLoop c (ID p) sts
                 (ctx1\<lparr>ctx_remote := r2, ctx_calls := ctx_calls ctx1 @ [ListRolesCall (ID p)]\<rparr>)
                 [] [] False = Some (ctx2, visited, toUpdate, withError)"
  shows "length visited = length sts \<and> toUpdate = filter retained visited \<and>
         (\<exists>ctx'. ensureCloudProviderIntegration c u k ctx p protected =
            Some (ctx',
              if list_ex (\<lambda>s. st_ErrorMessage s \<noteq> '''') visited
              then Terminate ProjectCloudIntegrationsIsNotReadyInAtlas
                     ''not all items were synchronized successfully''
              else if list_all (\<lambda>s. st_Status s = CloudProviderIntegrationStatusAuthorized) toUpdate
              then OK
              else InProgress ProjectCloudIntegrationsIsNotReadyInAtlas
                     ''not all entries are authorized'')
            \<and> ctx_statusOption ctx' = Some toUpdate)"
proof -
  from syncLoop_accumulates [OF loop]
  have acc: "length visited = length sts" "toUpdate = filter retained visited"
    "withError = list_ex (\<lambda>s. st_ErrorMessage s \<noteq> '''') visited"
    by auto
  note s = sync_listed [OF list enrich loop]
  show ?thesis
  proof (cases withError)
    case True
    with can items s acc show ?thesis
      by (simp add: ensureCloudProviderIntegration_def Let_def setCondition_def)
  next
    case False
    with can items s acc show ?thesis
      by (auto simp add: ensureCloudProviderIntegration_def Let_def setCondition_def allAuthorized_iff)
  qed
qed

theorem pass_result_aggregation_witness:
  "map_option snd
     (ensureCloudProviderIntegration unavailableService (decodesTo []) lastAppliedKey
        (startContext []) (projectOf Map.empty [aws ''arn:aws:iam::1'']) False)
   = Some (Terminate ProjectCloudIntegrationsIsNotReadyInAtlas
             ''not all items were synchronized successfully'')"
proof -
  let ?p = "projectOf Map.empty [aws ''arn:aws:iam::1'']"
  let ?ctx = "startContext ([] :: CloudProviderAccessRole list)"
  let ?new = "NewCloudProviderIntegration ''AWS'' ''arn:aws:iam::1''"
  let ?failed = "?new\<lparr>st_Status := CloudProviderIntegrationStatusFailedToCreate,
                        st_ErrorMessage := ''service unavailable''\<rparr>"
  let ?ctx2 = "\<lparr>ctx_remote = ([] :: CloudProviderAccessRole list),
                 ctx_calls = [ListRolesCall ''p1'', CreateRoleCall ''p1'' ''AWS''],
                 ctx_conditions = [], ctx_statusOption = None\<rparr>"
  have can: "canCloudProviderIntegrationReconcile unavailableService (decodesTo []) lastAppliedKey
               ?ctx False ?p = (Inr True, ?ctx)"
    by (simp add: canReconcile_unprotected)
  have items: "\<not> (getCloudProviderIntegrations (Spec ?p) = [] \<and>
                   Status_CloudProviderIntegrations ?p = [])"
    by (simp add: projectOf_def getCloudProviderIntegrations_def)
  have list: "ListRoles unavailableService (ctx_remote ?ctx) (ID ?p) = (Inr [], [])"
    by (simp add: unavailableService_def startContext_def)
  have enrich: "enrichStatuses (initiateStatuses (getCloudProviderIntegrations (Spec ?p)))
                  (sortAtlasCPAsByRoleID []) = Some [?new]"
    by (simp add: projectOf_def getCloudProviderIntegrations_def initiateStatuses_def aws_def
        sortAtlasCPAsByRoleID_def enrichStatuses_def hasConfiguredMatch_def
        NewCloudProviderIntegration_def)
  have loop: "syncLoop unavailableService (ID ?p) [?new]
                (?ctx\<lparr>ctx_remote := [], ctx_calls := ctx_calls ?ctx @ [ListRolesCall (ID ?p)]\<rparr>)
                [] [] False = Some (?ctx2, [?failed], [?failed], True)"
    by (simp add: projectOf_def startContext_def syncStep_def createCloudProviderAccess_def
        issue_def unavailableService_def NewCloudProviderIntegration_def)
  from pass_result_aggregation [OF can items list enrich loop]
  show ?thesis
    by (auto simp: NewCloudProviderIntegration_def)
qed

text \<open>
  Claim C2, on the code. One remote role \<open>r1\<close> with the ARN \<open>arn:aws:iam::9\<close>, no desired item,
  and a service whose deauthorize call fails: the turn of the loop sets the phase
  FailedToDeAuthorize and the error message on the status but does not append it, so the
  status list handed over for persisting is empty, while the pass reports the error.
\<close>

theorem failed_deauthorize_is_dropped:
  "map_option (\<lambda>(ctx', answer). (ctx_statusOption ctx', ctx_calls ctx', answer))
     (syncCloudProviderIntegration unavailableService
        (startContext [memoryRole ''AWS'' ''r1'' ''arn:aws:iam::9'' ''2023-01-02'']) ''p1'' [])
   = Some (Some [], [ListRolesCall ''p1'', DeauthorizeRoleCall ''AWS'' ''p1'' ''r1''],
           False, Some ''not all items were synchronized successfully'')
   \<and> map_option (\<lambda>(ctx', s, appended). (st_Status s, st_ErrorMessage s, appended))
       (syncStep unavailableService
          (startContext [memoryRole ''AWS'' ''r1'' ''arn:aws:iam::9'' ''2023-01-02'']) ''p1''
          ((NewCloudProviderIntegration ''AWS'' ''arn:aws:iam::9'')
             \<lparr>st_RoleID := ''r1'', st_Status := CloudProviderIntegrationStatusDeAuthorize\<rparr>))
     = Some (CloudProviderIntegrationStatusFailedToDeAuthorize, ''service unavailable'', False)"
  by (simp add: syncCloudProviderIntegration_def issue_def unavailableService_def startContext_def
      initiateStatuses_def NewCloudProviderIntegration_def sortAtlasCPAsByRoleID_def
      enrichStatuses_def isMatch_def copyCloudProviderAccessData_def cpiKey_def deleteStatus_def
      hasConfiguredMatch_def
      syncStep_def deleteCloudProviderAccess_def memoryRole_def Let_def)




text \<open>
  Claim C6, as amended. For remote roles with pairwise distinct role identifiers: let
  \<open>matched\<close> be the statuses after the exact-identifier pass and \<open>pending\<close> the remote roles
  without an ARN in strictly ascending order of their role identifier. The status at
  position \<open>i\<close> that has no configured match, when \<open>k\<close> such statuses precede it, takes the data
  of the role \<open>pending ! k\<close>, as long as \<open>k < length pending\<close>; every other status of the desired
  items is left as the exact-identifier pass produced it. Creation dates play no part.
\<close>

theorem unmatched_items_claim_roles_by_role_id:
  assumes ids: "distinct (map cpa_RoleID roles)"
    and enrich: "enrichStatuses (initiateStatuses specs) (sortAtlasCPAsByRoleID roles) = Some result"
  shows "\<exists>matched pending.
           enrichStatuses_match (initiateStatuses specs) (sortAtlasCPAsByRoleID roles) = Some matched \<and>
           length matched = length specs \<and>
           set pending = {cpa \<in> set roles. cpa_IAMAssumedRoleARN cpa = ''''} \<and>
           sorted_wrt (<) (map cpa_RoleID pending) \<and>
           (\<forall>i<length specs.
              if \<not> hasConfiguredMatch (matched ! i) \<and>
                 length (filter (\<lambda>s. \<not> hasConfiguredMatch s) (take i matched)) < length pending
              then copyCloudProviderAccessData (matched ! i)
                     (pending ! length (filter (\<lambda>s. \<not> hasConfiguredMatch s) (take i matched)))
                   = Some (result ! i)
              else result ! i = matched ! i)"
proof -
  let ?sorted = "sortAtlasCPAsByRoleID roles"
  let ?pending = "filter (\<lambda>cpa. cpa_IAMAssumedRoleARN cpa = '''') ?sorted"
  from enrich obtain matched claimed rest removals unclaimed where
    m: "enrichStatuses_match (initiateStatuses specs) ?sorted = Some matched" and
    c: "enrichStatuses_claim matched ?pending = Some (claimed, rest)" and
    res: "result = claimed @ removals @ unclaimed"
    by (auto simp: enrichStatuses_def split: option.splits prod.splits)
  from match_length [OF m] have len: "length matched = length specs"
    by (simp add: initiateStatuses_def)
  note pairs = claim_pairs_in_order [OF c]
  have nth: "result ! i = claimed ! i" if "i < length specs" for i
    using that pairs len res by (simp add: nth_append)
  have members: "set ?pending = {cpa \<in> set roles. cpa_IAMAssumedRoleARN cpa = ''''}"
    by (auto simp: sortAtlasCPAsByRoleID_def)
  show ?thesis
  proof (intro exI [of _ matched] exI [of _ ?pending] conjI allI impI)
    show "enrichStatuses_match (initiateStatuses specs) ?sorted = Some matched" by (rule m)
    show "length matched = length specs" by (rule len)
    show "set ?pending = {cpa \<in> set roles. cpa_IAMAssumedRoleARN cpa = ''''}" by (rule members)
    show "sorted_wrt (<) (map cpa_RoleID ?pending)" by (rule pending_roles_sorted [OF ids])
  next
    fix i assume i: "i < length specs"
    with pairs len have
      "if \<not> hasConfiguredMatch (matched ! i) \<and>
          length (filter (\<lambda>s. \<not> hasConfiguredMatch s) (take i matched)) < length ?pending
       then copyCloudProviderAccessData (matched ! i)
              (?pending ! length (filter (\<lambda>s. \<not> hasConfiguredMatch s) (take i matched)))
            = Some (claimed ! i)
       else claimed ! i = matched ! i"
      by simp
    with nth [OF i] show
      "if \<not> hasConfiguredMatch (matched ! i) \<and>
          length (filter (\<lambda>s. \<not> hasConfiguredMatch s) (take i matched)) < length ?pending
       then copyCloudProviderAccessData (matched ! i)
              (?pending ! length (filter (\<lambda>s. \<not> hasConfiguredMatch s) (take i matched)))
            = Some (result ! i)
       else result ! i = matched ! i"
      by simp
  qed
qed

theorem unmatched_items_claim_roles_by_role_id_witness:
  "distinct (map cpa_RoleID [olderRole, newerRole]) \<and>
   (\<exists>result.
      enrichStatuses (initiateStatuses [aws '''']) (sortAtlasCPAsByRoleID [olderRole, newerRole])
        = Some result \<and>
      map st_RoleID result = [''a'', ''b''] \<and>
      (\<exists>matched pending.
         enrichStatuses_match (initiateStatuses [aws ''''])
           (sortAtlasCPAsByRoleID [olderRole, newerRole]) = Some matched \<and>
         length matched = length [aws ''''] \<and>
         set pending = {cpa \<in> set [olderRole, newerRole]. cpa_IAMAssumedRoleARN cpa = ''''} \<and>
         sorted_wrt (<) (map cpa_RoleID pending) \<and>
         (\<forall>i<length [aws ''''].
            if \<not> hasConfiguredMatch (matched ! i) \<and>
               length (filter (\<lambda>s. \<not> hasConfiguredMatch s) (take i matched)) < length pending
            then copyCloudProviderAccessData (matched ! i)
                   (pending ! length (filter (\<lambda>s. \<not> hasConfiguredMatch s) (take i matched)))
                 = Some (result ! i)
            else result ! i = matched ! i)))"
proof -
  let ?claimed = "\<lparr>st_AtlasAWSAccountArn = ''arn:aws:iam::atlas'', st_AtlasAssumedRoleExternalID = ''ext'',
               st_AuthorizedDate = '''', st_CreatedDate = ''2023-06-01'',
               st_FeatureUsages = [], st_IamAssumedRoleArn = '''',
               st_ProviderName = ''AWS'', st_RoleID = ''a'',
               st_Status = CloudProviderIntegrationStatusCreated, st_ErrorMessage = ''''\<rparr>"
  let ?removed = "\<lparr>st_AtlasAWSAccountArn = ''arn:aws:iam::atlas'', st_AtlasAssumedRoleExternalID = ''ext'',
               st_AuthorizedDate = '''', st_CreatedDate = ''2023-01-01'',
               st_FeatureUsages = [], st_IamAssumedRoleArn = '''',
               st_ProviderName = ''AWS'', st_RoleID = ''b'',
               st_Status = CloudProviderIntegrationStatusDeAuthorize, st_ErrorMessage = ''''\<rparr>"
  have ids: "distinct (map cpa_RoleID [olderRole, newerRole])"
    by (simp add: olderRole_def newerRole_def memoryRole_def)
  have enrich: "enrichStatuses (initiateStatuses [aws ''''])
                  (sortAtlasCPAsByRoleID [olderRole, newerRole]) = Some [?claimed, ?removed]"
    by (simp add: initiateStatuses_def NewCloudProviderIntegration_def aws_def sortAtlasCPAsByRoleID_def
        enrichStatuses_def isMatch_def copyCloudProviderAccessData_def cpiKey_def deleteStatus_def
        hasConfiguredMatch_def memoryRole_def olderRole_def newerRole_def Let_def)
  note t = unmatched_items_claim_roles_by_role_id [OF ids enrich]
  show ?thesis
    by (rule conjI, rule ids, rule exI [of _ "[?claimed, ?removed]"], rule conjI, rule enrich,
        rule conjI, simp, rule t)
qed

text \<open>
  Claim C6 as stated fails where the order of the role identifiers is not the order of
  creation: of two roles without an ARN, the desired item takes the one with the smaller
  identifier \<open>a\<close>, created later, and the role created first is marked for removal.
\<close>

theorem pairing_ignores_creation_dates_counterexample:
  "map_option (map (\<lambda>s. (st_RoleID s, st_CreatedDate s, st_Status s)))
     (enrichStatuses (initiateStatuses [aws ''''])
        (sortAtlasCPAsByRoleID
           [olderRole, newerRole]))
   = Some [(''a'', ''2023-06-01'', CloudProviderIntegrationStatusCreated),
           (''b'', ''2023-01-01'', CloudProviderIntegrationStatusDeAuthorize)]"
  by (simp add: initiateStatuses_def NewCloudProviderIntegration_def aws_def sortAtlasCPAsByRoleID_def
      enrichStatuses_def isMatch_def copyCloudProviderAccessData_def cpiKey_def deleteStatus_def
      hasConfiguredMatch_def memoryRole_def olderRole_def newerRole_def Let_def)

end
